theory Spec2Isabelle
  imports Main "HOL-Library.Word"
begin

section \<open>Data model of the network interface\<close>

text \<open>
  The interface of \<^verbatim>\<open>network_interface.cc\<close> bridges IP and Ethernet. An Ethernet
  address is six bytes, an IP address in the ARP header is a raw 32-bit value, the two
  frame-type and opcode fields are 16-bit values, and a payload is a string of bytes.
\<close>

type_synonym EthernetAddress = "48 word"
type_synonym u32 = "32 word"
type_synonym u16 = "16 word"
type_synonym payload = "8 word list"

text \<open>
  Modelled from the spec: the class \<^verbatim>\<open>Address\<close> (address.hh) is not part of the
  sources at hand. The interface reads an address only through \<^verbatim>\<open>ipv4_numeric()\<close>
  and stores it whole in the waiting list. The model gives an address a second
  component beside the 32-bit network address, so that nothing proved here rests on
  \<^verbatim>\<open>ipv4_numeric()\<close> telling all addresses apart.
\<close>

datatype Address = Address (ipv4_numeric: u32) (port: u16)

text \<open>
  Modelled from the spec: the constants of ethernet_header.hh and arp_message.hh (the
  broadcast link address, the two payload types, the two opcodes) are not part of the
  sources at hand; they carry the values of the protocols.
\<close>

definition ETHERNET_BROADCAST :: EthernetAddress where
  "ETHERNET_BROADCAST = 0xFFFFFFFFFFFF"

definition TYPE_IPv4 :: u16 where
  "TYPE_IPv4 = 0x800"

definition TYPE_ARP :: u16 where
  "TYPE_ARP = 0x806"

definition OPCODE_REQUEST :: u16 where
  "OPCODE_REQUEST = 1"

definition OPCODE_REPLY :: u16 where
  "OPCODE_REPLY = 2"

record ARPMessage =
  opcode :: u16
  sender_ethernet_address :: EthernetAddress
  sender_ip_address :: u32
  target_ethernet_address :: EthernetAddress
  target_ip_address :: u32

record EthernetHeader =
  dst :: EthernetAddress
  src :: EthernetAddress
  type :: u16

record EthernetFrame =
  header :: EthernetHeader
  payload :: payload

text \<open>
  Modelled from the spec: the codecs of the datagram and of the ARP message
  (\<^verbatim>\<open>serialize\<close>, \<^verbatim>\<open>Parser\<close>, \<^verbatim>\<open>InternetDatagram::parse\<close>,
  \<^verbatim>\<open>ARPMessage::parse\<close>) are not part of the sources at hand. Every operation takes
  them as a parameter; a parse that leaves the parser in its error state is \<open>None\<close>.
  The datagram type \<open>'d\<close> stays abstract.
\<close>

record 'd codec =
  serialize_dgram :: "'d \<Rightarrow> payload"
  parse_dgram :: "payload \<Rightarrow> 'd option"
  serialize_arp :: "ARPMessage \<Rightarrow> payload"
  parse_arp :: "payload \<Rightarrow> ARPMessage option"

text \<open>
  \<^verbatim>\<open>struct ARP_Entry\<close> and the private members of \<^verbatim>\<open>class NetworkInterface\<close>.
  The two \<^verbatim>\<open>unordered_map\<close>s are maps, the \<^verbatim>\<open>std::list\<close> and the
  \<^verbatim>\<open>std::queue\<close> are lists (the queue is pushed at the back and popped at the
  front). A \<^verbatim>\<open>size_t\<close> timer is a natural number: the only subtraction of the code
  is guarded by \<^verbatim>\<open>ttl > ms_since_last_tick\<close>, and the only values stored are
  30000 and 5000, so no timer ever wraps.
\<close>

record ARP_Entry =
  eth_addr :: EthernetAddress
  ttl :: nat

record 'd NetworkInterface =
  ethernet_address :: EthernetAddress
  ip_address :: Address
  arp_table :: "u32 \<rightharpoonup> ARP_Entry"
  waiting_arp_response_ip_addr :: "u32 \<rightharpoonup> nat"
  waiting_arp_internet_datagrams :: "(Address \<times> 'd) list"
  frames_out :: "EthernetFrame list"

definition arp_entry_default_ttl :: nat where
  "arp_entry_default_ttl = 30000"

definition arp_response_default_ttl :: nat where
  "arp_response_default_ttl = 5000"

text \<open>The constructor: both maps, the list and the queue start empty.\<close>

definition new_NetworkInterface :: "EthernetAddress \<Rightarrow> Address \<Rightarrow> 'd NetworkInterface" where
  "new_NetworkInterface ethernet_address' ip_address' =
     \<lparr> ethernet_address = ethernet_address',
       ip_address = ip_address',
       arp_table = Map.empty,
       waiting_arp_response_ip_addr = Map.empty,
       waiting_arp_internet_datagrams = [],
       frames_out = [] \<rparr>"

section \<open>Operations\<close>

definition construct_arp_message ::
  "'d NetworkInterface \<Rightarrow> u16 \<Rightarrow> EthernetAddress \<Rightarrow> u32 \<Rightarrow> ARPMessage" where
  "construct_arp_message s opcode' target_eth_addr target_ip_addr =
     \<lparr> opcode = opcode',
       sender_ethernet_address = ethernet_address s,
       sender_ip_address = ipv4_numeric (ip_address s),
       target_ethernet_address = target_eth_addr,
       target_ip_address = target_ip_addr \<rparr>"

definition construct_ethernet_frame ::
  "'d NetworkInterface \<Rightarrow> EthernetAddress \<Rightarrow> u16 \<Rightarrow> payload \<Rightarrow> EthernetFrame" where
  "construct_ethernet_frame s dst_addr type' payload' =
     \<lparr> header = \<lparr> dst = dst_addr, src = ethernet_address s, type = type' \<rparr>,
       payload = payload' \<rparr>"

text \<open>
  \<^verbatim>\<open>send_datagram\<close>: on a miss in the ARP table, broadcast a request unless one is
  pending and park the datagram; on a hit, queue the IPv4 frame. The empty target
  address \<^verbatim>\<open>{}\<close> of a request is the all-zero address.
\<close>

definition send_datagram ::
  "'d codec \<Rightarrow> 'd \<Rightarrow> Address \<Rightarrow> 'd NetworkInterface \<Rightarrow> 'd NetworkInterface" where
  "send_datagram c dgram next_hop s =
     (let next_hop_ip = ipv4_numeric next_hop in
      case arp_table s next_hop_ip of
        None \<Rightarrow>
          (let s1 =
             (if waiting_arp_response_ip_addr s next_hop_ip = None then
                (let arp_request = construct_arp_message s OPCODE_REQUEST 0 next_hop_ip;
                     eth_frame = construct_ethernet_frame s ETHERNET_BROADCAST TYPE_ARP
                                   (serialize_arp c arp_request)
                 in s\<lparr> frames_out := frames_out s @ [eth_frame],
                       waiting_arp_response_ip_addr :=
                         (waiting_arp_response_ip_addr s)
                           (next_hop_ip \<mapsto> arp_response_default_ttl) \<rparr>)
              else s)
           in s1\<lparr> waiting_arp_internet_datagrams :=
                     waiting_arp_internet_datagrams s1 @ [(next_hop, dgram)] \<rparr>)
      | Some entry \<Rightarrow>
          (let eth_frame = construct_ethernet_frame s (eth_addr entry) TYPE_IPv4
                             (serialize_dgram c dgram)
           in s\<lparr> frames_out := frames_out s @ [eth_frame] \<rparr>))"

definition handle_IPv4_frame :: "'d codec \<Rightarrow> EthernetFrame \<Rightarrow> 'd option" where
  "handle_IPv4_frame c frame = parse_dgram c (payload frame)"

text \<open>\<^verbatim>\<open>std::list::erase\<close> at the position of an iterator.\<close>

definition erase_at :: "nat \<Rightarrow> 'a list \<Rightarrow> 'a list" where
  "erase_at i xs = take i xs @ drop (Suc i) xs"

text \<open>
  The loop of \<^verbatim>\<open>handle_arp_frame\<close> that resends the parked datagrams. The iterator
  is the position \<open>i\<close> in the list of the current state; \<^verbatim>\<open>send_datagram\<close> runs on
  the whole state (it may append to the very list being walked), and \<^verbatim>\<open>erase\<close>
  leaves the iterator on the element that follows, which is position \<open>i\<close> again. A
  run that never reaches \<^verbatim>\<open>end()\<close> is \<open>None\<close>.
\<close>

partial_function (option) resend_loop ::
  "'d codec \<Rightarrow> u32 \<Rightarrow> nat \<Rightarrow> 'd NetworkInterface \<Rightarrow> 'd NetworkInterface option" where
  "resend_loop c src_ip_addr i s =
     (if i < length (waiting_arp_internet_datagrams s) then
        (if ipv4_numeric (fst (waiting_arp_internet_datagrams s ! i)) = src_ip_addr then
           (let s1 = send_datagram c (snd (waiting_arp_internet_datagrams s ! i))
                       (fst (waiting_arp_internet_datagrams s ! i)) s
            in resend_loop c src_ip_addr i
                 (s1\<lparr> waiting_arp_internet_datagrams :=
                        erase_at i (waiting_arp_internet_datagrams s1) \<rparr>))
         else resend_loop c src_ip_addr (Suc i) s)
      else Some s)"

text \<open>
  \<^verbatim>\<open>handle_arp_frame\<close> returns no datagram in any case; the result pairs the
  returned optional with the new state, and is \<open>None\<close> when the loop does not return.
\<close>

definition handle_arp_frame ::
  "'d codec \<Rightarrow> EthernetFrame \<Rightarrow> 'd NetworkInterface \<Rightarrow> ('d option \<times> 'd NetworkInterface) option" where
  "handle_arp_frame c frame s =
     (case parse_arp c (payload frame) of
        None \<Rightarrow> Some (None, s)
      | Some arp_msg \<Rightarrow>
          (let src_ip_addr = sender_ip_address arp_msg;
               dst_ip_addr = target_ip_address arp_msg;
               src_eth_addr = sender_ethernet_address arp_msg;
               dst_eth_addr = target_ethernet_address arp_msg;
               is_valid_arp_request =
                 (opcode arp_msg = OPCODE_REQUEST \<and> dst_ip_addr = ipv4_numeric (ip_address s));
               is_valid_arp_reply =
                 (opcode arp_msg = OPCODE_REPLY \<and> dst_eth_addr = ethernet_address s);
               s1 = (if is_valid_arp_request then
                       (let arp_reply = construct_arp_message s OPCODE_REPLY src_eth_addr src_ip_addr;
                            eth_frame = construct_ethernet_frame s src_eth_addr TYPE_ARP
                                          (serialize_arp c arp_reply)
                        in s\<lparr> frames_out := frames_out s @ [eth_frame] \<rparr>)
                     else s)
           in if is_valid_arp_request \<or> is_valid_arp_reply then
                (let s2 = s1\<lparr> arp_table := (arp_table s1)
                               (src_ip_addr \<mapsto>
                                  \<lparr> eth_addr = src_eth_addr, ttl = arp_entry_default_ttl \<rparr>) \<rparr>
                 in case resend_loop c src_ip_addr 0 s2 of
                      None \<Rightarrow> None
                    | Some s3 \<Rightarrow>
                        Some (None,
                          s3\<lparr> waiting_arp_response_ip_addr :=
                                (waiting_arp_response_ip_addr s3)(src_ip_addr := None) \<rparr>))
              else Some (None, s1)))"

definition recv_frame ::
  "'d codec \<Rightarrow> EthernetFrame \<Rightarrow> 'd NetworkInterface \<Rightarrow> ('d option \<times> 'd NetworkInterface) option" where
  "recv_frame c frame s =
     (if dst (header frame) \<noteq> ethernet_address s \<and> dst (header frame) \<noteq> ETHERNET_BROADCAST
      then Some (None, s)
      else if type (header frame) = TYPE_IPv4 then Some (handle_IPv4_frame c frame, s)
      else if type (header frame) = TYPE_ARP then handle_arp_frame c frame s
      else Some (None, s))"

text \<open>
  \<^verbatim>\<open>tick\<close>. Each pass of the first loop touches the one entry of the ARP table under
  the iterator: it is erased when its timer is at most the elapsed time, and aged
  otherwise. Each pass of the second loop does the same to one entry of the waiting
  map, and an erased key also takes its datagrams out of the waiting list. The passes
  do not read what another pass wrote, so the order in which the hash maps are walked
  does not matter and the loops are the entry-wise maps below.
\<close>

definition age_arp_entry :: "nat \<Rightarrow> ARP_Entry \<Rightarrow> ARP_Entry option" where
  "age_arp_entry ms_since_last_tick entry =
     (if ttl entry \<le> ms_since_last_tick then None
      else Some (entry\<lparr> ttl := ttl entry - ms_since_last_tick \<rparr>))"

definition age_waiting :: "nat \<Rightarrow> nat \<Rightarrow> nat option" where
  "age_waiting ms_since_last_tick t =
     (if t \<le> ms_since_last_tick then None else Some (t - ms_since_last_tick))"

definition expired_ip :: "nat \<Rightarrow> 'd NetworkInterface \<Rightarrow> u32 \<Rightarrow> bool" where
  "expired_ip ms_since_last_tick s ip =
     (case waiting_arp_response_ip_addr s ip of
        None \<Rightarrow> False
      | Some t \<Rightarrow> t \<le> ms_since_last_tick)"

definition tick :: "nat \<Rightarrow> 'd NetworkInterface \<Rightarrow> 'd NetworkInterface" where
  "tick ms_since_last_tick s =
     s\<lparr> arp_table :=
          (\<lambda>ip. case arp_table s ip of
                  None \<Rightarrow> None
                | Some entry \<Rightarrow> age_arp_entry ms_since_last_tick entry),
        waiting_arp_response_ip_addr :=
          (\<lambda>ip. case waiting_arp_response_ip_addr s ip of
                  None \<Rightarrow> None
                | Some t \<Rightarrow> age_waiting ms_since_last_tick t),
        waiting_arp_internet_datagrams :=
          filter (\<lambda>pair. \<not> expired_ip ms_since_last_tick s (ipv4_numeric (fst pair)))
            (waiting_arp_internet_datagrams s) \<rparr>"

definition maybe_send :: "'d NetworkInterface \<Rightarrow> EthernetFrame option \<times> 'd NetworkInterface" where
  "maybe_send s =
     (case frames_out s of
        [] \<Rightarrow> (None, s)
      | frame # rest \<Rightarrow> (Some frame, s\<lparr> frames_out := rest \<rparr>))"

section \<open>Closed forms and call sequences\<close>

text \<open>
  The IPv4 frames that \<^verbatim>\<open>send_datagram\<close> queues for the datagrams of a waiting list
  whose next hop is \<open>ip\<close>, once the ARP table maps \<open>ip\<close> to \<open>eth\<close>.
\<close>

definition resent_frames ::
  "'d codec \<Rightarrow> 'd NetworkInterface \<Rightarrow> EthernetAddress \<Rightarrow> u32 \<Rightarrow> (Address \<times> 'd) list \<Rightarrow> EthernetFrame list" where
  "resent_frames c s eth ip ws =
     map (\<lambda>pair. construct_ethernet_frame s eth TYPE_IPv4 (serialize_dgram c (snd pair)))
       (filter (\<lambda>pair. ipv4_numeric (fst pair) = ip) ws)"

text \<open>
  The test \<^verbatim>\<open>is_valid_arp_request || is_valid_arp_reply\<close> of \<^verbatim>\<open>handle_arp_frame\<close>.
\<close>

definition is_valid_arp :: "'d NetworkInterface \<Rightarrow> ARPMessage \<Rightarrow> bool" where
  "is_valid_arp s arp_msg =
     ((opcode arp_msg = OPCODE_REQUEST \<and> target_ip_address arp_msg = ipv4_numeric (ip_address s)) \<or>
      (opcode arp_msg = OPCODE_REPLY \<and> target_ethernet_address arp_msg = ethernet_address s))"

text \<open>
  The ARP reply that \<^verbatim>\<open>handle_arp_frame\<close> queues for a valid request, as a list of at
  most one frame.
\<close>

definition reply_frames :: "'d codec \<Rightarrow> 'd NetworkInterface \<Rightarrow> ARPMessage \<Rightarrow> EthernetFrame list" where
  "reply_frames c s arp_msg =
     (if opcode arp_msg = OPCODE_REQUEST \<and> target_ip_address arp_msg = ipv4_numeric (ip_address s)
      then [construct_ethernet_frame s (sender_ethernet_address arp_msg) TYPE_ARP
              (serialize_arp c (construct_arp_message s OPCODE_REPLY
                 (sender_ethernet_address arp_msg) (sender_ip_address arp_msg)))]
      else [])"

text \<open>
  The state that \<^verbatim>\<open>handle_arp_frame\<close> leaves behind after a valid request or reply,
  in closed form (lemma \<open>handle_arp_frame_valid\<close> proves that the code computes it).
\<close>

definition learned :: "'d codec \<Rightarrow> 'd NetworkInterface \<Rightarrow> ARPMessage \<Rightarrow> 'd NetworkInterface" where
  "learned c s arp_msg =
     s\<lparr> frames_out := frames_out s @ reply_frames c s arp_msg @
           resent_frames c s (sender_ethernet_address arp_msg) (sender_ip_address arp_msg)
             (waiting_arp_internet_datagrams s),
        arp_table := (arp_table s)(sender_ip_address arp_msg \<mapsto>
           \<lparr> eth_addr = sender_ethernet_address arp_msg, ttl = arp_entry_default_ttl \<rparr>),
        waiting_arp_response_ip_addr :=
           (waiting_arp_response_ip_addr s)(sender_ip_address arp_msg := None),
        waiting_arp_internet_datagrams :=
           filter (\<lambda>pair. ipv4_numeric (fst pair) \<noteq> sender_ip_address arp_msg)
             (waiting_arp_internet_datagrams s) \<rparr>"

text \<open>
  A call of one of the four public operations, and the state a sequence of calls
  reaches. The results that \<^verbatim>\<open>recv_frame\<close> and \<^verbatim>\<open>maybe_send\<close> hand to the caller
  are dropped; \<open>None\<close> stands for a call that does not return.
\<close>

datatype 'd call =
    Send_datagram 'd Address
  | Recv_frame EthernetFrame
  | Tick nat
  | Maybe_send

fun call_step :: "'d codec \<Rightarrow> 'd call \<Rightarrow> 'd NetworkInterface \<Rightarrow> 'd NetworkInterface option" where
  "call_step c (Send_datagram dgram next_hop) s = Some (send_datagram c dgram next_hop s)"
| "call_step c (Recv_frame frame) s = map_option snd (recv_frame c frame s)"
| "call_step c (Tick ms_since_last_tick) s = Some (tick ms_since_last_tick s)"
| "call_step c Maybe_send s = Some (snd (maybe_send s))"

fun run_calls :: "'d codec \<Rightarrow> 'd call list \<Rightarrow> 'd NetworkInterface \<Rightarrow> 'd NetworkInterface option" where
  "run_calls c [] s = Some s"
| "run_calls c (call # calls) s =
     (case call_step c call s of
        None \<Rightarrow> None
      | Some s' \<Rightarrow> run_calls c calls s')"

text \<open>
  The invariant of the three stores: no IP address is in the ARP table and in the
  waiting map at once, and the next hop of every waiting datagram is in the waiting map.
\<close>

definition stores_ok :: "'d NetworkInterface \<Rightarrow> bool" where
  "stores_ok s =
     ((\<forall>ip. arp_table s ip = None \<or> waiting_arp_response_ip_addr s ip = None) \<and>
      (\<forall>pair \<in> set (waiting_arp_internet_datagrams s).
         waiting_arp_response_ip_addr s (ipv4_numeric (fst pair)) \<noteq> None))"

text \<open>
  A sequence of calls that only sends to one next hop and lets time pass, the time that
  passes in all, and the datagrams it sends.
\<close>

fun sends_and_ticks :: "Address \<Rightarrow> 'd call list \<Rightarrow> bool" where
  "sends_and_ticks next_hop [] = True"
| "sends_and_ticks next_hop (Send_datagram dgram next_hop' # calls) =
     (next_hop' = next_hop \<and> sends_and_ticks next_hop calls)"
| "sends_and_ticks next_hop (Tick ms # calls) = sends_and_ticks next_hop calls"
| "sends_and_ticks next_hop (Recv_frame frame # calls) = False"
| "sends_and_ticks next_hop (Maybe_send # calls) = False"

fun elapsed_ms :: "'d call list \<Rightarrow> nat" where
  "elapsed_ms [] = 0"
| "elapsed_ms (Tick ms # calls) = ms + elapsed_ms calls"
| "elapsed_ms (call # calls) = elapsed_ms calls"

fun datagrams_sent :: "'d call list \<Rightarrow> 'd list" where
  "datagrams_sent [] = []"
| "datagrams_sent (Send_datagram dgram next_hop # calls) = dgram # datagrams_sent calls"
| "datagrams_sent (call # calls) = datagrams_sent calls"

text \<open>
  The datagrams of the waiting list whose next hop has the IP address \<open>ip\<close>.
\<close>

definition waiting_for :: "u32 \<Rightarrow> 'd NetworkInterface \<Rightarrow> (Address \<times> 'd) list" where
  "waiting_for ip s =
     filter (\<lambda>pair. ipv4_numeric (fst pair) = ip) (waiting_arp_internet_datagrams s)"

section \<open>A concrete codec and interface\<close>

text \<open>
  A small codec to run the operations on concrete inputs: a datagram is its own
  payload (the empty payload does not parse), and an ARP message is five bytes, one for
  each field.
\<close>

definition demo_codec :: "payload codec" where
  "demo_codec =
     \<lparr> serialize_dgram = (\<lambda>dgram. dgram),
       parse_dgram = (\<lambda>bytes. if bytes = [] then None else Some bytes),
       serialize_arp = (\<lambda>arp_msg.
         [ucast (opcode arp_msg), ucast (sender_ethernet_address arp_msg),
          ucast (sender_ip_address arp_msg), ucast (target_ethernet_address arp_msg),
          ucast (target_ip_address arp_msg)]),
       parse_arp = (\<lambda>bytes.
         case bytes of
           [op, s_eth, s_ip, t_eth, t_ip] \<Rightarrow>
             Some \<lparr> opcode = ucast op, sender_ethernet_address = ucast s_eth,
                    sender_ip_address = ucast s_ip, target_ethernet_address = ucast t_eth,
                    target_ip_address = ucast t_ip \<rparr>
         | _ \<Rightarrow> None) \<rparr>"

definition demo_interface :: "payload NetworkInterface" where
  "demo_interface = new_NetworkInterface 0xAA (Address 1 0)"

text \<open>
  The fresh interface after two sends to the unresolved next hop 2, an ARP reply and an
  ARP request from that next hop, and the fresh interface with the mapping already
  learned.
\<close>

definition demo_blocked :: "payload NetworkInterface" where
  "demo_blocked =
     send_datagram demo_codec [8] (Address 2 0)
       (send_datagram demo_codec [7] (Address 2 0) demo_interface)"

definition demo_reply :: EthernetFrame where
  "demo_reply =
     \<lparr> header = \<lparr> dst = 0xAA, src = 0xBB, type = TYPE_ARP \<rparr>,
       payload = [2, 0xBB, 2, 0xAA, 1] \<rparr>"

definition demo_request :: EthernetFrame where
  "demo_request =
     \<lparr> header = \<lparr> dst = ETHERNET_BROADCAST, src = 0xBB, type = TYPE_ARP \<rparr>,
       payload = [1, 0xBB, 2, 0, 1] \<rparr>"

definition demo_resolved :: "payload NetworkInterface" where
  "demo_resolved =
     demo_interface\<lparr> arp_table := [2 \<mapsto> \<lparr> eth_addr = 0xBB, ttl = 30000 \<rparr>] \<rparr>"

text \<open>
  A sequence of calls on the fresh interface: two sends to the unresolved next hops 2
  and 3, the ARP reply of next hop 2, a tick of 100 ms and a poll of the outbound
  queue; and the state after the two sends.
\<close>

definition demo_calls :: "payload call list" where
  "demo_calls =
     [Send_datagram [7] (Address 2 0), Send_datagram [8] (Address 3 0),
      Recv_frame demo_reply, Tick 100, Maybe_send]"

definition demo_two_hops :: "payload NetworkInterface" where
  "demo_two_hops =
     send_datagram demo_codec [8] (Address 3 0)
       (send_datagram demo_codec [7] (Address 2 0) demo_interface)"

section \<open>Auxiliary facts\<close>

lemma send_datagram_hit:
  "arp_table s (ipv4_numeric next_hop) = Some entry \<Longrightarrow>
   send_datagram c dgram next_hop s =
     s\<lparr> frames_out := frames_out s @
           [construct_ethernet_frame s (eth_addr entry) TYPE_IPv4 (serialize_dgram c dgram)] \<rparr>"
  by (simp add: send_datagram_def)

lemma resend_loop_hit:
  "arp_table s ip = Some entry \<Longrightarrow>
   resend_loop c ip i s =
     Some (s\<lparr> frames_out := frames_out s @
                 resent_frames c s (eth_addr entry) ip (drop i (waiting_arp_internet_datagrams s)),
               waiting_arp_internet_datagrams :=
                 take i (waiting_arp_internet_datagrams s) @
                 filter (\<lambda>pair. ipv4_numeric (fst pair) \<noteq> ip)
                   (drop i (waiting_arp_internet_datagrams s)) \<rparr>)"
proof (induction "length (waiting_arp_internet_datagrams s) - i" arbitrary: s i rule: less_induct)
  case less
  let ?w = "waiting_arp_internet_datagrams s"
  show ?case
  proof (cases "i < length ?w")
    case False
    then show ?thesis
      by (subst resend_loop.simps) (simp add: resent_frames_def)
  next
    case inrange: True
    then have dropi: "drop i ?w = ?w ! i # drop (Suc i) ?w"
      by (simp add: Cons_nth_drop_Suc)
    show ?thesis
    proof (cases "ipv4_numeric (fst (?w ! i)) = ip")
      case True
      define s1 where "s1 = send_datagram c (snd (?w ! i)) (fst (?w ! i)) s"
      define s2 where "s2 = s1\<lparr> waiting_arp_internet_datagrams :=
                        erase_at i (waiting_arp_internet_datagrams s1) \<rparr>"
      have s1: "s1 = s\<lparr> frames_out := frames_out s @
           [construct_ethernet_frame s (eth_addr entry) TYPE_IPv4 (serialize_dgram c (snd (?w ! i)))] \<rparr>"
        unfolding s1_def using True less.prems by (simp add: send_datagram_hit)
      have w2: "waiting_arp_internet_datagrams s2 = take i ?w @ drop (Suc i) ?w"
        by (simp add: s2_def s1 erase_at_def)
      have "length (waiting_arp_internet_datagrams s2) - i < length ?w - i"
        using inrange by (simp add: w2)
      moreover have "arp_table s2 ip = Some entry"
        using less.prems by (simp add: s2_def s1)
      ultimately have IH: "resend_loop c ip i s2 =
        Some (s2\<lparr> frames_out := frames_out s2 @
                 resent_frames c s2 (eth_addr entry) ip (drop i (waiting_arp_internet_datagrams s2)),
               waiting_arp_internet_datagrams :=
                 take i (waiting_arp_internet_datagrams s2) @
                 filter (\<lambda>pair. ipv4_numeric (fst pair) \<noteq> ip)
                   (drop i (waiting_arp_internet_datagrams s2)) \<rparr>)"
        by (rule less.hyps)
      have step: "resend_loop c ip i s = resend_loop c ip i s2"
        by (subst resend_loop.simps) (simp add: inrange True s1_def s2_def Let_def)
      have d2: "drop i (waiting_arp_internet_datagrams s2) = drop (Suc i) ?w"
        using inrange by (simp add: w2)
      have t2: "take i (waiting_arp_internet_datagrams s2) = take i ?w"
        using inrange by (simp add: w2)
      show ?thesis
        unfolding step IH d2 t2
        by (simp add: dropi True resent_frames_def construct_ethernet_frame_def s2_def s1)
    next
      case False
      have "length ?w - Suc i < length ?w - i"
        using inrange by simp
      then have IH: "resend_loop c ip (Suc i) s =
        Some (s\<lparr> frames_out := frames_out s @
                 resent_frames c s (eth_addr entry) ip (drop (Suc i) ?w),
               waiting_arp_internet_datagrams :=
                 take (Suc i) ?w @
                 filter (\<lambda>pair. ipv4_numeric (fst pair) \<noteq> ip) (drop (Suc i) ?w) \<rparr>)"
        using less.prems by (rule less.hyps)
      have step: "resend_loop c ip i s = resend_loop c ip (Suc i) s"
        by (subst resend_loop.simps) (simp add: inrange False)
      show ?thesis
        unfolding step IH
        by (simp add: dropi False resent_frames_def take_Suc_conv_app_nth [OF inrange])
    qed
  qed
qed

lemma handle_arp_frame_unparsed:
  "parse_arp c (payload frame) = None \<Longrightarrow> handle_arp_frame c frame s = Some (None, s)"
  by (simp add: handle_arp_frame_def)

lemma handle_arp_frame_not_valid:
  "parse_arp c (payload frame) = Some arp_msg \<Longrightarrow> \<not> is_valid_arp s arp_msg \<Longrightarrow>
   handle_arp_frame c frame s = Some (None, s)"
  by (auto simp add: handle_arp_frame_def is_valid_arp_def Let_def)

lemma handle_arp_frame_valid:
  assumes parsed: "parse_arp c (payload frame) = Some arp_msg"
    and valid: "is_valid_arp s arp_msg"
  shows "handle_arp_frame c frame s = Some (None, learned c s arp_msg)"
proof -
  let ?ip = "sender_ip_address arp_msg"
  let ?e = "\<lparr> eth_addr = sender_ethernet_address arp_msg, ttl = arp_entry_default_ttl \<rparr>"
  define s2 where "s2 = s\<lparr> frames_out := frames_out s @ reply_frames c s arp_msg,
                           arp_table := (arp_table s)(?ip \<mapsto> ?e) \<rparr>"
  have hit: "arp_table s2 ?ip = Some ?e"
    by (simp add: s2_def)
  have loop: "resend_loop c ?ip 0 s2 =
     Some (s2\<lparr> frames_out := frames_out s2 @
                 resent_frames c s2 (eth_addr ?e) ?ip (drop 0 (waiting_arp_internet_datagrams s2)),
               waiting_arp_internet_datagrams :=
                 take 0 (waiting_arp_internet_datagrams s2) @
                 filter (\<lambda>pair. ipv4_numeric (fst pair) \<noteq> ?ip)
                   (drop 0 (waiting_arp_internet_datagrams s2)) \<rparr>)"
    using hit by (rule resend_loop_hit)
  have unfold: "handle_arp_frame c frame s =
      (case resend_loop c ?ip 0 s2 of
         None \<Rightarrow> None
       | Some s3 \<Rightarrow> Some (None, s3\<lparr> waiting_arp_response_ip_addr :=
                                (waiting_arp_response_ip_addr s3)(?ip := None) \<rparr>))"
    using parsed valid
    by (auto simp add: handle_arp_frame_def is_valid_arp_def Let_def s2_def reply_frames_def)
  show ?thesis
    unfolding unfold loop
    by (simp add: s2_def learned_def resent_frames_def construct_ethernet_frame_def)
qed

lemma handle_arp_frame_cases:
  "handle_arp_frame c frame s = Some (None, s) \<or>
   (\<exists>arp_msg. handle_arp_frame c frame s = Some (None, learned c s arp_msg))"
proof (cases "parse_arp c (payload frame)")
  case None
  then show ?thesis by (simp add: handle_arp_frame_unparsed)
next
  case (Some arp_msg)
  then show ?thesis
    by (cases "is_valid_arp s arp_msg")
       (auto simp add: handle_arp_frame_not_valid handle_arp_frame_valid)
qed

lemma recv_frame_cases:
  "(\<exists>r. recv_frame c frame s = Some (r, s)) \<or>
   (\<exists>arp_msg. recv_frame c frame s = Some (None, learned c s arp_msg))"
  using handle_arp_frame_cases [of c frame s]
  by (auto simp add: recv_frame_def)

lemma stores_ok_new: "stores_ok (new_NetworkInterface eth ip)"
  by (simp add: stores_ok_def new_NetworkInterface_def)

lemma stores_ok_send_datagram:
  "stores_ok s \<Longrightarrow> stores_ok (send_datagram c dgram next_hop s)"
  by (auto simp add: stores_ok_def send_datagram_def Let_def split: option.splits)

lemma stores_ok_learned: "stores_ok s \<Longrightarrow> stores_ok (learned c s arp_msg)"
  by (auto simp add: stores_ok_def learned_def)

lemma stores_ok_recv_frame:
  "stores_ok s \<Longrightarrow> recv_frame c frame s = Some (r, s') \<Longrightarrow> stores_ok s'"
  using recv_frame_cases [of c frame s] by (auto simp add: stores_ok_learned)

lemma stores_ok_tick:
  assumes "stores_ok s"
  shows "stores_ok (tick ms s)"
proof -
  have disj: "arp_table s ip = None \<or> waiting_arp_response_ip_addr s ip = None" for ip
    using assms by (simp add: stores_ok_def)
  have pend: "waiting_arp_response_ip_addr s (ipv4_numeric (fst pair)) \<noteq> None"
    if "pair \<in> set (waiting_arp_internet_datagrams s)" for pair
    using assms that by (simp add: stores_ok_def)
  have "arp_table (tick ms s) ip = None \<or> waiting_arp_response_ip_addr (tick ms s) ip = None"
    for ip
    using disj [of ip] by (auto simp add: tick_def)
  moreover have "waiting_arp_response_ip_addr (tick ms s) (ipv4_numeric (fst pair)) \<noteq> None"
    if "pair \<in> set (waiting_arp_internet_datagrams (tick ms s))" for pair
    using that pend [of pair]
    by (auto simp add: tick_def expired_ip_def age_waiting_def split: option.splits)
  ultimately show ?thesis
    by (simp add: stores_ok_def)
qed

lemma stores_ok_maybe_send: "stores_ok s \<Longrightarrow> stores_ok (snd (maybe_send s))"
  by (auto simp add: stores_ok_def maybe_send_def split: list.splits)

lemma stores_ok_call_step:
  "stores_ok s \<Longrightarrow> call_step c call s = Some s' \<Longrightarrow> stores_ok s'"
  by (cases call)
     (auto simp add: stores_ok_send_datagram stores_ok_tick stores_ok_maybe_send
        dest: stores_ok_recv_frame)

lemma stores_ok_run_calls:
  "stores_ok s \<Longrightarrow> run_calls c calls s = Some s' \<Longrightarrow> stores_ok s'"
proof (induction calls arbitrary: s)
  case Nil
  then show ?case by simp
next
  case (Cons call calls)
  then show ?case
    by (auto split: option.splits dest: stores_ok_call_step)
qed

lemma call_step_returns: "\<exists>s'. call_step c call s = Some s'"
proof (cases call)
  case (Recv_frame frame)
  then show ?thesis
    using recv_frame_cases [of c frame s] by auto
qed simp_all

lemma run_calls_returns: "\<exists>s'. run_calls c calls s = Some s'"
proof (induction calls arbitrary: s)
  case Nil
  then show ?case by simp
next
  case (Cons call calls)
  obtain s1 where "call_step c call s = Some s1"
    using call_step_returns by blast
  then show ?case using Cons.IH [of s1] by simp
qed

lemma send_datagram_pending:
  assumes "arp_table s (ipv4_numeric next_hop) = None"
    and "waiting_arp_response_ip_addr s (ipv4_numeric next_hop) = Some t"
  shows "send_datagram c dgram next_hop s =
     s\<lparr> waiting_arp_internet_datagrams :=
          waiting_arp_internet_datagrams s @ [(next_hop, dgram)] \<rparr>"
  using assms by (simp add: send_datagram_def)

lemma send_datagram_fresh:
  assumes "arp_table s (ipv4_numeric next_hop) = None"
    and "waiting_arp_response_ip_addr s (ipv4_numeric next_hop) = None"
  shows "send_datagram c dgram next_hop s =
     s\<lparr> frames_out := frames_out s @
           [construct_ethernet_frame s ETHERNET_BROADCAST TYPE_ARP
              (serialize_arp c
                 (construct_arp_message s OPCODE_REQUEST 0 (ipv4_numeric next_hop)))],
        waiting_arp_response_ip_addr :=
          (waiting_arp_response_ip_addr s)(ipv4_numeric next_hop \<mapsto> arp_response_default_ttl),
        waiting_arp_internet_datagrams :=
          waiting_arp_internet_datagrams s @ [(next_hop, dgram)] \<rparr>"
  using assms by (simp add: send_datagram_def Let_def)

lemma tick_keeps_pending:
  assumes "waiting_arp_response_ip_addr s ip = Some t" and "ms < t"
  shows "waiting_arp_response_ip_addr (tick ms s) ip = Some (t - ms)"
    and "waiting_for ip (tick ms s) = waiting_for ip s"
  using assms
  by (auto simp add: tick_def age_waiting_def waiting_for_def expired_ip_def
      intro!: filter_cong)

lemma tick_keeps_uncached:
  "arp_table s ip = None \<Longrightarrow> arp_table (tick ms s) ip = None"
  by (simp add: tick_def)

lemma run_sends_and_ticks:
  assumes "sends_and_ticks next_hop calls"
    and "arp_table s (ipv4_numeric next_hop) = None"
    and "waiting_arp_response_ip_addr s (ipv4_numeric next_hop) = Some t"
    and "elapsed_ms calls < t"
  shows "\<exists>s'. run_calls c calls s = Some s' \<and>
           frames_out s' = frames_out s \<and>
           arp_table s' (ipv4_numeric next_hop) = None \<and>
           waiting_arp_response_ip_addr s' (ipv4_numeric next_hop) = Some (t - elapsed_ms calls) \<and>
           waiting_for (ipv4_numeric next_hop) s' =
             waiting_for (ipv4_numeric next_hop) s @ map (Pair next_hop) (datagrams_sent calls)"
  using assms
proof (induction calls arbitrary: s t)
  case Nil
  then show ?case by simp
next
  case (Cons call calls)
  let ?ip = "ipv4_numeric next_hop"
  show ?case
  proof (cases call)
    case (Send_datagram dgram next_hop')
    with Cons.prems have nh: "next_hop' = next_hop" and rest: "sends_and_ticks next_hop calls"
      and el: "elapsed_ms calls < t"
      by simp_all
    define s1 where "s1 = send_datagram c dgram next_hop s"
    have s1: "s1 = s\<lparr> waiting_arp_internet_datagrams :=
          waiting_arp_internet_datagrams s @ [(next_hop, dgram)] \<rparr>"
      unfolding s1_def using Cons.prems(2,3) by (rule send_datagram_pending)
    have "\<exists>s'. run_calls c calls s1 = Some s' \<and>
           frames_out s' = frames_out s1 \<and>
           arp_table s' ?ip = None \<and>
           waiting_arp_response_ip_addr s' ?ip = Some (t - elapsed_ms calls) \<and>
           waiting_for ?ip s' = waiting_for ?ip s1 @ map (Pair next_hop) (datagrams_sent calls)"
      using rest Cons.prems(2,3) el by (intro Cons.IH) (simp_all add: s1)
    moreover have "waiting_for ?ip s1 = waiting_for ?ip s @ [(next_hop, dgram)]"
      by (simp add: s1 waiting_for_def)
    moreover have "frames_out s1 = frames_out s"
      by (simp add: s1)
    moreover have "call_step c call s = Some s1"
      by (simp add: Send_datagram nh s1_def)
    ultimately show ?thesis
      by (auto simp add: Send_datagram)
  next
    case (Tick ms)
    with Cons.prems have rest: "sends_and_ticks next_hop calls"
      and el: "ms + elapsed_ms calls < t"
      by simp_all
    define s1 where "s1 = tick ms s"
    have lt: "ms < t" using el by simp
    have p1: "waiting_arp_response_ip_addr s1 ?ip = Some (t - ms)"
      and w1: "waiting_for ?ip s1 = waiting_for ?ip s"
      unfolding s1_def using Cons.prems(3) lt by (rule tick_keeps_pending)+
    have a1: "arp_table s1 ?ip = None"
      unfolding s1_def using Cons.prems(2) by (rule tick_keeps_uncached)
    have f1: "frames_out s1 = frames_out s"
      by (simp add: s1_def tick_def)
    have "elapsed_ms calls < t - ms" using el by simp
    with rest a1 p1 have "\<exists>s'. run_calls c calls s1 = Some s' \<and>
           frames_out s' = frames_out s1 \<and>
           arp_table s' ?ip = None \<and>
           waiting_arp_response_ip_addr s' ?ip = Some (t - ms - elapsed_ms calls) \<and>
           waiting_for ?ip s' = waiting_for ?ip s1 @ map (Pair next_hop) (datagrams_sent calls)"
      by (rule Cons.IH)
    moreover have "call_step c call s = Some s1"
      by (simp add: Tick s1_def)
    ultimately show ?thesis
      using el by (auto simp add: f1 w1 Tick)
  next
    case (Recv_frame frame)
    with Cons.prems show ?thesis by simp
  next
    case Maybe_send
    with Cons.prems show ?thesis by simp
  qed
qed

lemma type_distinct: "TYPE_ARP \<noteq> TYPE_IPv4"
  by (simp add: TYPE_ARP_def TYPE_IPv4_def)

lemma recv_frame_valid_arp:
  assumes "dst (header frame) = ethernet_address s \<or> dst (header frame) = ETHERNET_BROADCAST"
    and "type (header frame) = TYPE_ARP"
    and "parse_arp c (payload frame) = Some arp_msg"
    and "is_valid_arp s arp_msg"
  shows "recv_frame c frame s = Some (None, learned c s arp_msg)"
  using assms by (auto simp add: recv_frame_def type_distinct handle_arp_frame_valid)

lemma filter_IPv4_reply_frames:
  "filter (\<lambda>f. type (header f) = TYPE_IPv4) (reply_frames c s arp_msg) = []"
  by (simp add: reply_frames_def construct_ethernet_frame_def type_distinct)

lemma filter_IPv4_resent_frames:
  "filter (\<lambda>f. type (header f) = TYPE_IPv4) (resent_frames c s eth ip ws) =
   resent_frames c s eth ip ws"
  by (simp add: resent_frames_def construct_ethernet_frame_def filter_map comp_def)

lemma demo_blocked_eq:
  "demo_blocked =
     \<lparr> ethernet_address = 0xAA, ip_address = Address 1 0, arp_table = Map.empty,
       waiting_arp_response_ip_addr = [2 \<mapsto> 5000],
       waiting_arp_internet_datagrams = [(Address 2 0, [7]), (Address 2 0, [8])],
       frames_out =
         [\<lparr> header = \<lparr> dst = ETHERNET_BROADCAST, src = 0xAA, type = TYPE_ARP \<rparr>,
            payload = [1, 0xAA, 1, 0, 2] \<rparr>] \<rparr>"
  by (simp add: demo_blocked_def demo_interface_def new_NetworkInterface_def send_datagram_def
      Let_def demo_codec_def construct_arp_message_def construct_ethernet_frame_def
      arp_response_default_ttl_def OPCODE_REQUEST_def)

lemma demo_reply_parses:
  "parse_arp demo_codec (payload demo_reply) =
     Some \<lparr> opcode = OPCODE_REPLY, sender_ethernet_address = 0xBB, sender_ip_address = 2,
            target_ethernet_address = 0xAA, target_ip_address = 1 \<rparr>"
  by (simp add: demo_codec_def demo_reply_def OPCODE_REPLY_def)

lemma demo_request_parses:
  "parse_arp demo_codec (payload demo_request) =
     Some \<lparr> opcode = OPCODE_REQUEST, sender_ethernet_address = 0xBB, sender_ip_address = 2,
            target_ethernet_address = 0, target_ip_address = 1 \<rparr>"
  by (simp add: demo_codec_def demo_request_def OPCODE_REQUEST_def)

lemma demo_interface_eq:
  "demo_interface =
     \<lparr> ethernet_address = 0xAA, ip_address = Address 1 0, arp_table = Map.empty,
       waiting_arp_response_ip_addr = Map.empty,
       waiting_arp_internet_datagrams = [], frames_out = [] \<rparr>"
  by (simp add: demo_interface_def new_NetworkInterface_def)

lemma demo_resolved_eq:
  "demo_resolved =
     \<lparr> ethernet_address = 0xAA, ip_address = Address 1 0,
       arp_table = [2 \<mapsto> \<lparr> eth_addr = 0xBB, ttl = 30000 \<rparr>],
       waiting_arp_response_ip_addr = Map.empty,
       waiting_arp_internet_datagrams = [], frames_out = [] \<rparr>"
  by (simp add: demo_resolved_def demo_interface_eq)

lemma demo_two_hops_eq:
  "demo_two_hops =
     \<lparr> ethernet_address = 0xAA, ip_address = Address 1 0, arp_table = Map.empty,
       waiting_arp_response_ip_addr = [2 \<mapsto> 5000, 3 \<mapsto> 5000],
       waiting_arp_internet_datagrams = [(Address 2 0, [7]), (Address 3 0, [8])],
       frames_out =
         [\<lparr> header = \<lparr> dst = ETHERNET_BROADCAST, src = 0xAA, type = TYPE_ARP \<rparr>,
            payload = [1, 0xAA, 1, 0, 2] \<rparr>,
          \<lparr> header = \<lparr> dst = ETHERNET_BROADCAST, src = 0xAA, type = TYPE_ARP \<rparr>,
            payload = [1, 0xAA, 1, 0, 3] \<rparr>] \<rparr>"
  by (simp add: demo_two_hops_def demo_interface_eq send_datagram_def
      Let_def demo_codec_def construct_arp_message_def construct_ethernet_frame_def
      arp_response_default_ttl_def OPCODE_REQUEST_def)

lemma demo_calls_run:
  "run_calls demo_codec demo_calls (new_NetworkInterface 0xAA (Address 1 0)) =
     Some (snd (maybe_send (tick 100 (learned demo_codec demo_two_hops
       \<lparr> opcode = OPCODE_REPLY, sender_ethernet_address = 0xBB, sender_ip_address = 2,
         target_ethernet_address = 0xAA, target_ip_address = 1 \<rparr>))))"
proof -
  have "recv_frame demo_codec demo_reply demo_two_hops =
     Some (None, learned demo_codec demo_two_hops
       \<lparr> opcode = OPCODE_REPLY, sender_ethernet_address = 0xBB, sender_ip_address = 2,
         target_ethernet_address = 0xAA, target_ip_address = 1 \<rparr>)"
    by (rule recv_frame_valid_arp [OF _ _ demo_reply_parses])
       (simp_all add: demo_reply_def demo_two_hops_eq is_valid_arp_def)
  then show ?thesis
    by (simp add: demo_calls_def demo_two_hops_def demo_interface_def)
qed

lemma demo_calls_state:
  "arp_table (snd (maybe_send (tick 100 (learned demo_codec demo_two_hops
       \<lparr> opcode = OPCODE_REPLY, sender_ethernet_address = 0xBB, sender_ip_address = 2,
         target_ethernet_address = 0xAA, target_ip_address = 1 \<rparr>)))) 2 =
     Some \<lparr> eth_addr = 0xBB, ttl = 29900 \<rparr>"
  "waiting_arp_response_ip_addr (snd (maybe_send (tick 100 (learned demo_codec demo_two_hops
       \<lparr> opcode = OPCODE_REPLY, sender_ethernet_address = 0xBB, sender_ip_address = 2,
         target_ethernet_address = 0xAA, target_ip_address = 1 \<rparr>)))) 3 = Some 4900"
  "waiting_arp_internet_datagrams (snd (maybe_send (tick 100 (learned demo_codec demo_two_hops
       \<lparr> opcode = OPCODE_REPLY, sender_ethernet_address = 0xBB, sender_ip_address = 2,
         target_ethernet_address = 0xAA, target_ip_address = 1 \<rparr>)))) = [(Address 3 0, [8])]"
  by (simp_all add: maybe_send_def tick_def learned_def demo_two_hops_eq age_arp_entry_def
      age_waiting_def expired_ip_def arp_entry_default_ttl_def split: list.splits)

section \<open>Receiving a valid ARP request or reply\<close>

text \<open>
  C1. Let the waiting list hold exactly \<open>N\<close> datagrams whose next hop has the IP
  address \<open>H\<close>, and let the ARP table have no entry for \<open>H\<close>. A frame for this
  interface that carries an ARP request for the IP address of the interface, or an ARP
  reply to its Ethernet address, with sender IP address \<open>H\<close>, makes \<^verbatim>\<open>recv_frame\<close>
  return no datagram and queue exactly \<open>N\<close> new IPv4 frames, one for each of these
  datagrams and each addressed to the Ethernet address of the sender (a request also
  queues the ARP reply, which is no IPv4 frame). Afterwards \<open>H\<close> is no longer in the
  waiting map, no datagram for \<open>H\<close> is left in the waiting list, and the ARP table
  maps \<open>H\<close> to the Ethernet address of the sender with the full 30000 ms.
\<close>

theorem valid_arp_drains_queue:
  assumes "dst (header frame) = ethernet_address s \<or> dst (header frame) = ETHERNET_BROADCAST"
    and "type (header frame) = TYPE_ARP"
    and "parse_arp c (payload frame) = Some arp_msg"
    and "(opcode arp_msg = OPCODE_REQUEST \<and>
          target_ip_address arp_msg = ipv4_numeric (ip_address s)) \<or>
         (opcode arp_msg = OPCODE_REPLY \<and>
          target_ethernet_address arp_msg = ethernet_address s)"
    and "sender_ip_address arp_msg = H"
    and "arp_table s H = None"
    and "length (waiting_for H s) = N"
  shows "\<exists>s' new. recv_frame c frame s = Some (None, s') \<and>
           frames_out s' = frames_out s @ new \<and>
           new = reply_frames c s arp_msg @
                 resent_frames c s (sender_ethernet_address arp_msg) H
                   (waiting_arp_internet_datagrams s) \<and>
           length (filter (\<lambda>f. type (header f) = TYPE_IPv4) new) = N \<and>
           filter (\<lambda>f. type (header f) = TYPE_IPv4) new =
             map (\<lambda>pair.
                    \<lparr> header = \<lparr> dst = sender_ethernet_address arp_msg,
                                 src = ethernet_address s, type = TYPE_IPv4 \<rparr>,
                      payload = serialize_dgram c (snd pair) \<rparr>)
               (waiting_for H s) \<and>
           waiting_arp_response_ip_addr s' = (waiting_arp_response_ip_addr s)(H := None) \<and>
           waiting_arp_internet_datagrams s' =
             filter (\<lambda>pair. ipv4_numeric (fst pair) \<noteq> H) (waiting_arp_internet_datagrams s) \<and>
           waiting_for H s' = [] \<and>
           arp_table s' =
             (arp_table s)(H \<mapsto> \<lparr> eth_addr = sender_ethernet_address arp_msg, ttl = 30000 \<rparr>)"
proof -
  have valid: "is_valid_arp s arp_msg"
    using assms(4) by (simp add: is_valid_arp_def)
  let ?s' = "learned c s arp_msg"
  let ?new = "reply_frames c s arp_msg @
              resent_frames c s (sender_ethernet_address arp_msg) H
                (waiting_arp_internet_datagrams s)"
  have recv: "recv_frame c frame s = Some (None, ?s')"
    using assms(1,2,3) valid by (rule recv_frame_valid_arp)
  have out: "frames_out ?s' = frames_out s @ ?new"
    by (simp add: learned_def assms(5))
  have new: "filter (\<lambda>f. type (header f) = TYPE_IPv4) ?new =
             map (\<lambda>pair.
                    \<lparr> header = \<lparr> dst = sender_ethernet_address arp_msg,
                                 src = ethernet_address s, type = TYPE_IPv4 \<rparr>,
                      payload = serialize_dgram c (snd pair) \<rparr>)
               (waiting_for H s)"
    by (simp add: filter_IPv4_reply_frames filter_IPv4_resent_frames)
       (simp add: resent_frames_def waiting_for_def construct_ethernet_frame_def)
  have len: "length (filter (\<lambda>f. type (header f) = TYPE_IPv4) ?new) = N"
    unfolding new using assms(7) by simp
  have pend: "waiting_arp_response_ip_addr ?s' = (waiting_arp_response_ip_addr s)(H := None)"
    by (simp add: learned_def assms(5))
  have blocked: "waiting_arp_internet_datagrams ?s' =
      filter (\<lambda>pair. ipv4_numeric (fst pair) \<noteq> H) (waiting_arp_internet_datagrams s)"
    by (simp add: learned_def assms(5))
  have gone: "waiting_for H ?s' = []"
    by (simp add: waiting_for_def blocked)
  have cache: "arp_table ?s' =
      (arp_table s)(H \<mapsto> \<lparr> eth_addr = sender_ethernet_address arp_msg, ttl = 30000 \<rparr>)"
    by (simp add: learned_def assms(5) arp_entry_default_ttl_def)
  show ?thesis
    using recv out refl [of ?new] len new pend blocked gone cache by blast
qed

theorem valid_arp_drains_queue_witness:
  "(dst (header demo_reply) = ethernet_address demo_blocked \<or>
    dst (header demo_reply) = ETHERNET_BROADCAST) \<and>
   type (header demo_reply) = TYPE_ARP \<and>
   arp_table demo_blocked 2 = None \<and>
   length (waiting_for 2 demo_blocked) = 2 \<and>
   (\<exists>s'. recv_frame demo_codec demo_reply demo_blocked = Some (None, s') \<and>
      frames_out s' = frames_out demo_blocked @
        [\<lparr> header = \<lparr> dst = 0xBB, src = 0xAA, type = TYPE_IPv4 \<rparr>, payload = [7] \<rparr>,
         \<lparr> header = \<lparr> dst = 0xBB, src = 0xAA, type = TYPE_IPv4 \<rparr>, payload = [8] \<rparr>] \<and>
      waiting_arp_response_ip_addr s' 2 = None \<and>
      waiting_arp_internet_datagrams s' = [] \<and>
      arp_table s' 2 = Some \<lparr> eth_addr = 0xBB, ttl = 30000 \<rparr>) \<and>
   (dst (header demo_request) = ethernet_address demo_blocked \<or>
    dst (header demo_request) = ETHERNET_BROADCAST) \<and>
   type (header demo_request) = TYPE_ARP \<and>
   (\<exists>s'. recv_frame demo_codec demo_request demo_blocked = Some (None, s') \<and>
      frames_out s' = frames_out demo_blocked @
        [\<lparr> header = \<lparr> dst = 0xBB, src = 0xAA, type = TYPE_ARP \<rparr>,
           payload = [2, 0xAA, 1, 0xBB, 2] \<rparr>,
         \<lparr> header = \<lparr> dst = 0xBB, src = 0xAA, type = TYPE_IPv4 \<rparr>, payload = [7] \<rparr>,
         \<lparr> header = \<lparr> dst = 0xBB, src = 0xAA, type = TYPE_IPv4 \<rparr>, payload = [8] \<rparr>] \<and>
      waiting_arp_response_ip_addr s' 2 = None \<and>
      waiting_arp_internet_datagrams s' = [] \<and>
      arp_table s' 2 = Some \<lparr> eth_addr = 0xBB, ttl = 30000 \<rparr>)"
proof -
  let ?reply = "\<lparr> opcode = OPCODE_REPLY, sender_ethernet_address = 0xBB,
                  sender_ip_address = 2, target_ethernet_address = 0xAA,
                  target_ip_address = 1 \<rparr>"
  let ?request = "\<lparr> opcode = OPCODE_REQUEST, sender_ethernet_address = 0xBB,
                    sender_ip_address = 2, target_ethernet_address = 0,
                    target_ip_address = 1 \<rparr>"
  have addressed: "dst (header demo_reply) = ethernet_address demo_blocked \<or>
      dst (header demo_reply) = ETHERNET_BROADCAST"
    by (simp add: demo_reply_def demo_blocked_eq)
  have arp: "type (header demo_reply) = TYPE_ARP"
    by (simp add: demo_reply_def)
  have valid: "(opcode ?reply = OPCODE_REQUEST \<and>
        target_ip_address ?reply = ipv4_numeric (ip_address demo_blocked)) \<or>
       (opcode ?reply = OPCODE_REPLY \<and>
        target_ethernet_address ?reply = ethernet_address demo_blocked)"
    by (simp add: demo_blocked_eq)
  have addressed': "dst (header demo_request) = ethernet_address demo_blocked \<or>
      dst (header demo_request) = ETHERNET_BROADCAST"
    by (simp add: demo_request_def)
  have arp': "type (header demo_request) = TYPE_ARP"
    by (simp add: demo_request_def)
  have valid': "(opcode ?request = OPCODE_REQUEST \<and>
        target_ip_address ?request = ipv4_numeric (ip_address demo_blocked)) \<or>
       (opcode ?request = OPCODE_REPLY \<and>
        target_ethernet_address ?request = ethernet_address demo_blocked)"
    by (simp add: demo_blocked_eq)
  have miss: "arp_table demo_blocked 2 = None"
    by (simp add: demo_blocked_eq)
  have two: "length (waiting_for 2 demo_blocked) = 2"
    by (simp add: demo_blocked_eq waiting_for_def)
  have on_reply: "\<exists>s'. recv_frame demo_codec demo_reply demo_blocked = Some (None, s') \<and>
      frames_out s' = frames_out demo_blocked @
        [\<lparr> header = \<lparr> dst = 0xBB, src = 0xAA, type = TYPE_IPv4 \<rparr>, payload = [7] \<rparr>,
         \<lparr> header = \<lparr> dst = 0xBB, src = 0xAA, type = TYPE_IPv4 \<rparr>, payload = [8] \<rparr>] \<and>
      waiting_arp_response_ip_addr s' 2 = None \<and>
      waiting_arp_internet_datagrams s' = [] \<and>
      arp_table s' 2 = Some \<lparr> eth_addr = 0xBB, ttl = 30000 \<rparr>"
    using valid_arp_drains_queue [OF addressed arp demo_reply_parses valid _ miss two]
    by (auto simp add: reply_frames_def resent_frames_def construct_ethernet_frame_def
        demo_blocked_eq demo_codec_def OPCODE_REPLY_def OPCODE_REQUEST_def)
  have on_request: "\<exists>s'. recv_frame demo_codec demo_request demo_blocked = Some (None, s') \<and>
      frames_out s' = frames_out demo_blocked @
        [\<lparr> header = \<lparr> dst = 0xBB, src = 0xAA, type = TYPE_ARP \<rparr>,
           payload = [2, 0xAA, 1, 0xBB, 2] \<rparr>,
         \<lparr> header = \<lparr> dst = 0xBB, src = 0xAA, type = TYPE_IPv4 \<rparr>, payload = [7] \<rparr>,
         \<lparr> header = \<lparr> dst = 0xBB, src = 0xAA, type = TYPE_IPv4 \<rparr>, payload = [8] \<rparr>] \<and>
      waiting_arp_response_ip_addr s' 2 = None \<and>
      waiting_arp_internet_datagrams s' = [] \<and>
      arp_table s' 2 = Some \<lparr> eth_addr = 0xBB, ttl = 30000 \<rparr>"
    using valid_arp_drains_queue [OF addressed' arp' demo_request_parses valid' _ miss two]
    by (auto simp add: reply_frames_def resent_frames_def construct_ethernet_frame_def
        construct_arp_message_def demo_blocked_eq demo_codec_def OPCODE_REPLY_def
        OPCODE_REQUEST_def)
  from addressed arp miss two on_reply addressed' arp' on_request show ?thesis
    by blast
qed

text \<open>
  C3. The loop that resends the parked datagrams runs after the ARP table got its entry
  for the sender. From any state with such an entry the loop returns; every
  \<^verbatim>\<open>send_datagram\<close> it calls takes the branch of the hit: the ARP table and the
  waiting map come out as they went in, the waiting list only loses the datagrams of
  the sender, and the frames queued are one IPv4 frame to the cached Ethernet address
  for each of them. So \<^verbatim>\<open>handle_arp_frame\<close> returns for every state and every frame,
  reachable or not, and adds nothing to the waiting list or the waiting map.
\<close>

theorem resend_loop_only_hits:
  "(\<exists>s'. resend_loop c ip i (s\<lparr> arp_table := (arp_table s)(ip \<mapsto> entry) \<rparr>) = Some s' \<and>
          arp_table s' = (arp_table s)(ip \<mapsto> entry) \<and>
          waiting_arp_response_ip_addr s' = waiting_arp_response_ip_addr s \<and>
          waiting_arp_internet_datagrams s' =
            take i (waiting_arp_internet_datagrams s) @
            filter (\<lambda>pair. ipv4_numeric (fst pair) \<noteq> ip)
              (drop i (waiting_arp_internet_datagrams s)) \<and>
          frames_out s' = frames_out s @
            map (\<lambda>pair.
                   \<lparr> header = \<lparr> dst = eth_addr entry, src = ethernet_address s,
                                type = TYPE_IPv4 \<rparr>,
                     payload = serialize_dgram c (snd pair) \<rparr>)
              (filter (\<lambda>pair. ipv4_numeric (fst pair) = ip)
                 (drop i (waiting_arp_internet_datagrams s)))) \<and>
   (\<exists>s'. handle_arp_frame c frame s0 = Some (None, s') \<and>
          length (waiting_arp_internet_datagrams s') \<le> length (waiting_arp_internet_datagrams s0) \<and>
          dom (waiting_arp_response_ip_addr s') \<subseteq> dom (waiting_arp_response_ip_addr s0))"
proof
  let ?s = "s\<lparr> arp_table := (arp_table s)(ip \<mapsto> entry) \<rparr>"
  have "arp_table ?s ip = Some entry" by simp
  then have "resend_loop c ip i ?s =
     Some (?s\<lparr> frames_out := frames_out ?s @
                 resent_frames c ?s (eth_addr entry) ip (drop i (waiting_arp_internet_datagrams ?s)),
               waiting_arp_internet_datagrams :=
                 take i (waiting_arp_internet_datagrams ?s) @
                 filter (\<lambda>pair. ipv4_numeric (fst pair) \<noteq> ip)
                   (drop i (waiting_arp_internet_datagrams ?s)) \<rparr>)"
    by (rule resend_loop_hit)
  then show "\<exists>s'. resend_loop c ip i ?s = Some s' \<and>
          arp_table s' = (arp_table s)(ip \<mapsto> entry) \<and>
          waiting_arp_response_ip_addr s' = waiting_arp_response_ip_addr s \<and>
          waiting_arp_internet_datagrams s' =
            take i (waiting_arp_internet_datagrams s) @
            filter (\<lambda>pair. ipv4_numeric (fst pair) \<noteq> ip)
              (drop i (waiting_arp_internet_datagrams s)) \<and>
          frames_out s' = frames_out s @
            map (\<lambda>pair.
                   \<lparr> header = \<lparr> dst = eth_addr entry, src = ethernet_address s,
                                type = TYPE_IPv4 \<rparr>,
                     payload = serialize_dgram c (snd pair) \<rparr>)
              (filter (\<lambda>pair. ipv4_numeric (fst pair) = ip)
                 (drop i (waiting_arp_internet_datagrams s)))"
    by (simp add: resent_frames_def construct_ethernet_frame_def)
next
  have "length (waiting_arp_internet_datagrams (learned c s0 m))
          \<le> length (waiting_arp_internet_datagrams s0)" for m
    by (simp add: learned_def)
  moreover have "dom (waiting_arp_response_ip_addr (learned c s0 m))
          \<subseteq> dom (waiting_arp_response_ip_addr s0)" for m
    by (auto simp add: learned_def)
  ultimately show "\<exists>s'. handle_arp_frame c frame s0 = Some (None, s') \<and>
          length (waiting_arp_internet_datagrams s') \<le> length (waiting_arp_internet_datagrams s0) \<and>
          dom (waiting_arp_response_ip_addr s') \<subseteq> dom (waiting_arp_response_ip_addr s0)"
    using handle_arp_frame_cases [of c frame s0] by auto
qed

theorem resend_loop_only_hits_witness:
  "(\<exists>s'. resend_loop demo_codec 2 0
            (demo_blocked\<lparr> arp_table :=
               (arp_table demo_blocked)(2 \<mapsto> \<lparr> eth_addr = 0xBB, ttl = 30000 \<rparr>) \<rparr>) = Some s' \<and>
          arp_table s' 2 = Some \<lparr> eth_addr = 0xBB, ttl = 30000 \<rparr> \<and>
          waiting_arp_response_ip_addr s' 2 = Some 5000 \<and>
          waiting_arp_internet_datagrams s' = [] \<and>
          frames_out s' =
            [\<lparr> header = \<lparr> dst = ETHERNET_BROADCAST, src = 0xAA, type = TYPE_ARP \<rparr>,
               payload = [1, 0xAA, 1, 0, 2] \<rparr>,
             \<lparr> header = \<lparr> dst = 0xBB, src = 0xAA, type = TYPE_IPv4 \<rparr>, payload = [7] \<rparr>,
             \<lparr> header = \<lparr> dst = 0xBB, src = 0xAA, type = TYPE_IPv4 \<rparr>, payload = [8] \<rparr>]) \<and>
   (\<exists>s'. handle_arp_frame demo_codec demo_reply demo_blocked = Some (None, s'))"
proof -
  from resend_loop_only_hits
    [of demo_codec 2 0 demo_blocked "\<lparr> eth_addr = 0xBB, ttl = 30000 \<rparr>" demo_reply demo_blocked]
  have loop: "\<exists>s'. resend_loop demo_codec 2 0
            (demo_blocked\<lparr> arp_table :=
               (arp_table demo_blocked)(2 \<mapsto> \<lparr> eth_addr = 0xBB, ttl = 30000 \<rparr>) \<rparr>) = Some s' \<and>
          arp_table s' = (arp_table demo_blocked)(2 \<mapsto> \<lparr> eth_addr = 0xBB, ttl = 30000 \<rparr>) \<and>
          waiting_arp_response_ip_addr s' = waiting_arp_response_ip_addr demo_blocked \<and>
          waiting_arp_internet_datagrams s' =
            take 0 (waiting_arp_internet_datagrams demo_blocked) @
            filter (\<lambda>pair. ipv4_numeric (fst pair) \<noteq> 2)
              (drop 0 (waiting_arp_internet_datagrams demo_blocked)) \<and>
          frames_out s' = frames_out demo_blocked @
            map (\<lambda>pair.
                   \<lparr> header = \<lparr> dst = eth_addr \<lparr> eth_addr = 0xBB, ttl = 30000 \<rparr>,
                                src = ethernet_address demo_blocked, type = TYPE_IPv4 \<rparr>,
                     payload = serialize_dgram demo_codec (snd pair) \<rparr>)
              (filter (\<lambda>pair. ipv4_numeric (fst pair) = 2)
                 (drop 0 (waiting_arp_internet_datagrams demo_blocked)))"
    and whole: "\<exists>s'. handle_arp_frame demo_codec demo_reply demo_blocked = Some (None, s')"
    by blast+
  from loop have "\<exists>s'. resend_loop demo_codec 2 0
            (demo_blocked\<lparr> arp_table :=
               (arp_table demo_blocked)(2 \<mapsto> \<lparr> eth_addr = 0xBB, ttl = 30000 \<rparr>) \<rparr>) = Some s' \<and>
          arp_table s' 2 = Some \<lparr> eth_addr = 0xBB, ttl = 30000 \<rparr> \<and>
          waiting_arp_response_ip_addr s' 2 = Some 5000 \<and>
          waiting_arp_internet_datagrams s' = [] \<and>
          frames_out s' =
            [\<lparr> header = \<lparr> dst = ETHERNET_BROADCAST, src = 0xAA, type = TYPE_ARP \<rparr>,
               payload = [1, 0xAA, 1, 0, 2] \<rparr>,
             \<lparr> header = \<lparr> dst = 0xBB, src = 0xAA, type = TYPE_IPv4 \<rparr>, payload = [7] \<rparr>,
             \<lparr> header = \<lparr> dst = 0xBB, src = 0xAA, type = TYPE_IPv4 \<rparr>, payload = [8] \<rparr>]"
    by (auto simp add: demo_blocked_eq demo_codec_def)
  with whole show ?thesis
    by blast
qed

section \<open>Sending\<close>

text \<open>
  C2. Let the next hop \<open>A\<close> be absent from the ARP table and from the waiting map. A
  first \<^verbatim>\<open>send_datagram\<close> to \<open>A\<close>, followed by any sequence of further sends to
  \<open>A\<close> and of ticks that add up to less than the 5000 ms of the request timer, queues
  exactly one frame in all: the ARP request, broadcast by the first call. Every call
  of the sequence appends its datagram to the waiting list, so the datagrams waiting
  for \<open>A\<close> at the end are those that waited before, followed by all those sent, in
  order. (No frame is received in between, so \<open>A\<close> stays absent from the ARP table.)
\<close>

theorem one_request_per_window:
  assumes "arp_table s (ipv4_numeric next_hop) = None"
    and "waiting_arp_response_ip_addr s (ipv4_numeric next_hop) = None"
    and "sends_and_ticks next_hop calls"
    and "elapsed_ms calls < arp_response_default_ttl"
  shows "\<exists>s'. run_calls c (Send_datagram dgram next_hop # calls) s = Some s' \<and>
           frames_out s' = frames_out s @
             [\<lparr> header = \<lparr> dst = ETHERNET_BROADCAST, src = ethernet_address s, type = TYPE_ARP \<rparr>,
                payload = serialize_arp c
                  \<lparr> opcode = OPCODE_REQUEST,
                    sender_ethernet_address = ethernet_address s,
                    sender_ip_address = ipv4_numeric (ip_address s),
                    target_ethernet_address = 0,
                    target_ip_address = ipv4_numeric next_hop \<rparr> \<rparr>] \<and>
           waiting_for (ipv4_numeric next_hop) s' =
             waiting_for (ipv4_numeric next_hop) s @
             map (Pair next_hop) (dgram # datagrams_sent calls)"
proof -
  let ?ip = "ipv4_numeric next_hop"
  define s1 where "s1 = send_datagram c dgram next_hop s"
  have s1: "s1 = s\<lparr> frames_out := frames_out s @
           [construct_ethernet_frame s ETHERNET_BROADCAST TYPE_ARP
              (serialize_arp c (construct_arp_message s OPCODE_REQUEST 0 ?ip))],
        waiting_arp_response_ip_addr :=
          (waiting_arp_response_ip_addr s)(?ip \<mapsto> arp_response_default_ttl),
        waiting_arp_internet_datagrams :=
          waiting_arp_internet_datagrams s @ [(next_hop, dgram)] \<rparr>"
    unfolding s1_def using assms(1,2) by (rule send_datagram_fresh)
  have "\<exists>s'. run_calls c calls s1 = Some s' \<and>
           frames_out s' = frames_out s1 \<and>
           arp_table s' ?ip = None \<and>
           waiting_arp_response_ip_addr s' ?ip = Some (arp_response_default_ttl - elapsed_ms calls) \<and>
           waiting_for ?ip s' = waiting_for ?ip s1 @ map (Pair next_hop) (datagrams_sent calls)"
    using assms(3) _ _ assms(4) by (rule run_sends_and_ticks) (simp_all add: s1 assms(1))
  then obtain s' where run: "run_calls c calls s1 = Some s'"
    and f: "frames_out s' = frames_out s1"
    and w: "waiting_for ?ip s' = waiting_for ?ip s1 @ map (Pair next_hop) (datagrams_sent calls)"
    by blast
  have "run_calls c (Send_datagram dgram next_hop # calls) s = Some s'"
    using run by (simp add: s1_def)
  moreover have "frames_out s1 = frames_out s @
             [\<lparr> header = \<lparr> dst = ETHERNET_BROADCAST, src = ethernet_address s, type = TYPE_ARP \<rparr>,
                payload = serialize_arp c
                  \<lparr> opcode = OPCODE_REQUEST,
                    sender_ethernet_address = ethernet_address s,
                    sender_ip_address = ipv4_numeric (ip_address s),
                    target_ethernet_address = 0,
                    target_ip_address = ?ip \<rparr> \<rparr>]"
    by (simp add: s1 construct_ethernet_frame_def construct_arp_message_def)
  moreover have "waiting_for ?ip s1 = waiting_for ?ip s @ [(next_hop, dgram)]"
    by (simp add: s1 waiting_for_def)
  ultimately show ?thesis
    using f w by simp
qed

theorem one_request_per_window_witness:
  "arp_table demo_interface (ipv4_numeric (Address 2 0)) = None \<and>
   waiting_arp_response_ip_addr demo_interface (ipv4_numeric (Address 2 0)) = None \<and>
   sends_and_ticks (Address 2 0)
     [Tick 1000, Send_datagram [8 :: 8 word] (Address 2 0), Tick 3999,
      Send_datagram [9] (Address 2 0)] \<and>
   elapsed_ms [Tick 1000, Send_datagram [8 :: 8 word] (Address 2 0), Tick 3999,
               Send_datagram [9] (Address 2 0)] < arp_response_default_ttl \<and>
   (\<exists>s'. run_calls demo_codec
            [Send_datagram [7] (Address 2 0), Tick 1000, Send_datagram [8] (Address 2 0),
             Tick 3999, Send_datagram [9] (Address 2 0)] demo_interface = Some s' \<and>
          frames_out s' =
            [\<lparr> header = \<lparr> dst = ETHERNET_BROADCAST, src = 0xAA, type = TYPE_ARP \<rparr>,
               payload = [1, 0xAA, 1, 0, 2] \<rparr>] \<and>
          waiting_for 2 s' = [(Address 2 0, [7]), (Address 2 0, [8]), (Address 2 0, [9])])"
proof -
  let ?calls = "[Tick 1000, Send_datagram [8 :: 8 word] (Address 2 0), Tick 3999,
                 Send_datagram [9] (Address 2 0)]"
  have miss: "arp_table demo_interface (ipv4_numeric (Address 2 0)) = None"
    by (simp add: demo_interface_eq)
  have fresh: "waiting_arp_response_ip_addr demo_interface (ipv4_numeric (Address 2 0)) = None"
    by (simp add: demo_interface_eq)
  have seq: "sends_and_ticks (Address 2 0) ?calls"
    by simp
  have window: "elapsed_ms ?calls < arp_response_default_ttl"
    by (simp add: arp_response_default_ttl_def)
  from one_request_per_window [OF miss fresh seq window, of demo_codec "[7]"]
  have "\<exists>s'. run_calls demo_codec
            [Send_datagram [7] (Address 2 0), Tick 1000, Send_datagram [8] (Address 2 0),
             Tick 3999, Send_datagram [9] (Address 2 0)] demo_interface = Some s' \<and>
          frames_out s' =
            [\<lparr> header = \<lparr> dst = ETHERNET_BROADCAST, src = 0xAA, type = TYPE_ARP \<rparr>,
               payload = [1, 0xAA, 1, 0, 2] \<rparr>] \<and>
          waiting_for 2 s' = [(Address 2 0, [7]), (Address 2 0, [8]), (Address 2 0, [9])]"
    by (simp add: demo_interface_eq waiting_for_def demo_codec_def OPCODE_REQUEST_def)
  with miss fresh seq window show ?thesis
    by blast
qed

text \<open>
  C4. When the ARP table holds an entry for the next hop (with a positive remaining
  time, as every entry that survived a tick has; the code does not look at it),
  \<^verbatim>\<open>send_datagram\<close> queues exactly one frame, of type IPv4 and addressed to the cached
  Ethernet address, queues no ARP request, and leaves the waiting map and the waiting
  list alone. The function returns \<^verbatim>\<open>void\<close> and has no failing branch: for every
  input it either queues such a frame or parks the datagram at the end of the waiting
  list.
\<close>

theorem send_datagram_cache_hit:
  assumes "arp_table s (ipv4_numeric next_hop) = Some entry"
    and "0 < ttl entry"
  shows "send_datagram c dgram next_hop s =
           s\<lparr> frames_out := frames_out s @
                 [\<lparr> header = \<lparr> dst = eth_addr entry, src = ethernet_address s,
                                type = TYPE_IPv4 \<rparr>,
                    payload = serialize_dgram c dgram \<rparr>] \<rparr> \<and>
         waiting_arp_response_ip_addr (send_datagram c dgram next_hop s) =
           waiting_arp_response_ip_addr s \<and>
         waiting_arp_internet_datagrams (send_datagram c dgram next_hop s) =
           waiting_arp_internet_datagrams s \<and>
         ((\<exists>frame. frames_out (send_datagram c dgram' next_hop' s0) = frames_out s0 @ [frame] \<and>
                   type (header frame) = TYPE_IPv4 \<and>
                   waiting_arp_internet_datagrams (send_datagram c dgram' next_hop' s0) =
                     waiting_arp_internet_datagrams s0) \<or>
          waiting_arp_internet_datagrams (send_datagram c dgram' next_hop' s0) =
            waiting_arp_internet_datagrams s0 @ [(next_hop', dgram')])"
proof -
  have hit: "send_datagram c dgram next_hop s =
           s\<lparr> frames_out := frames_out s @
                 [\<lparr> header = \<lparr> dst = eth_addr entry, src = ethernet_address s,
                                type = TYPE_IPv4 \<rparr>,
                    payload = serialize_dgram c dgram \<rparr>] \<rparr>"
    using assms(1) by (simp add: send_datagram_hit construct_ethernet_frame_def)
  have total: "(\<exists>frame. frames_out (send_datagram c dgram' next_hop' s0) = frames_out s0 @ [frame] \<and>
                   type (header frame) = TYPE_IPv4 \<and>
                   waiting_arp_internet_datagrams (send_datagram c dgram' next_hop' s0) =
                     waiting_arp_internet_datagrams s0) \<or>
          waiting_arp_internet_datagrams (send_datagram c dgram' next_hop' s0) =
            waiting_arp_internet_datagrams s0 @ [(next_hop', dgram')]"
    by (cases "arp_table s0 (ipv4_numeric next_hop')")
       (simp_all add: send_datagram_def Let_def construct_ethernet_frame_def)
  show ?thesis
    using total by (simp add: hit)
qed

theorem send_datagram_cache_hit_witness:
  "arp_table demo_resolved (ipv4_numeric (Address 2 0)) = Some \<lparr> eth_addr = 0xBB, ttl = 30000 \<rparr> \<and>
   0 < ttl \<lparr> eth_addr = 0xBB, ttl = 30000 \<rparr> \<and>
   send_datagram demo_codec [7] (Address 2 0) demo_resolved =
     demo_resolved\<lparr> frames_out :=
       [\<lparr> header = \<lparr> dst = 0xBB, src = 0xAA, type = TYPE_IPv4 \<rparr>, payload = [7] \<rparr>] \<rparr>"
proof -
  have hit: "arp_table demo_resolved (ipv4_numeric (Address 2 0)) =
      Some \<lparr> eth_addr = 0xBB, ttl = 30000 \<rparr>"
    by (simp add: demo_resolved_eq)
  have alive: "0 < ttl \<lparr> eth_addr = 0xBB, ttl = 30000 \<rparr>"
    by simp
  from send_datagram_cache_hit [OF hit alive, of demo_codec "[7]"]
  have "send_datagram demo_codec [7] (Address 2 0) demo_resolved =
     demo_resolved\<lparr> frames_out :=
       [\<lparr> header = \<lparr> dst = 0xBB, src = 0xAA, type = TYPE_IPv4 \<rparr>, payload = [7] \<rparr>] \<rparr>"
    by (simp add: demo_resolved_eq demo_codec_def)
  with hit alive show ?thesis
    by blast
qed

section \<open>The passage of time\<close>

text \<open>
  C5. Ageing is exact: an entry of the ARP table with remaining time \<open>t\<close> is gone after
  \<^verbatim>\<open>tick(elapsed)\<close> when \<open>t \<le> elapsed\<close>, and stays with remaining time
  \<open>t - elapsed\<close> otherwise. An entry with the full 30000 ms is gone after a tick of
  30000 and has 1 ms left after a tick of 29999.
\<close>

theorem tick_ages_arp_table:
  assumes "arp_table s ip = Some entry"
  shows "arp_table (tick elapsed s) ip =
           (if ttl entry \<le> elapsed then None
            else Some (entry\<lparr> ttl := ttl entry - elapsed \<rparr>)) \<and>
         (ttl entry = arp_entry_default_ttl \<longrightarrow>
            arp_table (tick 30000 s) ip = None \<and>
            arp_table (tick 29999 s) ip = Some (entry\<lparr> ttl := 1 \<rparr>))"
  using assms by (simp add: tick_def age_arp_entry_def arp_entry_default_ttl_def)

theorem tick_ages_arp_table_witness:
  "arp_table demo_resolved 2 = Some \<lparr> eth_addr = 0xBB, ttl = 30000 \<rparr> \<and>
   ttl \<lparr> eth_addr = 0xBB, ttl = 30000 \<rparr> = arp_entry_default_ttl \<and>
   arp_table (tick 12000 demo_resolved) 2 = Some \<lparr> eth_addr = 0xBB, ttl = 18000 \<rparr> \<and>
   arp_table (tick 30000 demo_resolved) 2 = None \<and>
   arp_table (tick 29999 demo_resolved) 2 = Some \<lparr> eth_addr = 0xBB, ttl = 1 \<rparr>"
proof -
  have present: "arp_table demo_resolved 2 = Some \<lparr> eth_addr = 0xBB, ttl = 30000 \<rparr>"
    by (simp add: demo_resolved_eq)
  have full: "ttl \<lparr> eth_addr = 0xBB, ttl = 30000 \<rparr> = arp_entry_default_ttl"
    by (simp add: arp_entry_default_ttl_def)
  from tick_ages_arp_table [OF present, of 12000] full
  have "arp_table (tick 12000 demo_resolved) 2 = Some \<lparr> eth_addr = 0xBB, ttl = 18000 \<rparr> \<and>
    arp_table (tick 30000 demo_resolved) 2 = None \<and>
    arp_table (tick 29999 demo_resolved) 2 = Some \<lparr> eth_addr = 0xBB, ttl = 1 \<rparr>"
    by simp
  with present full show ?thesis
    by blast
qed

text \<open>
  C6. A waiting entry for \<open>A\<close> whose timer is at most the elapsed time is erased by
  \<^verbatim>\<open>tick\<close>, together with every datagram of the waiting list whose next hop is
  \<open>A\<close>; nothing is queued and nothing is reported. A later \<^verbatim>\<open>send_datagram\<close> to
  \<open>A\<close>, with \<open>A\<close> still absent from the ARP table, broadcasts a new ARP request and
  starts a new timer of 5000 ms.
\<close>

theorem tick_expires_waiting:
  assumes "waiting_arp_response_ip_addr s A = Some t"
    and "t \<le> elapsed"
  shows "waiting_arp_response_ip_addr (tick elapsed s) A = None \<and>
         waiting_for A (tick elapsed s) = [] \<and>
         frames_out (tick elapsed s) = frames_out s \<and>
         (ipv4_numeric next_hop = A \<and> arp_table (tick elapsed s) A = None \<longrightarrow>
            frames_out (send_datagram c dgram next_hop (tick elapsed s)) =
              frames_out s @
              [\<lparr> header = \<lparr> dst = ETHERNET_BROADCAST, src = ethernet_address s,
                             type = TYPE_ARP \<rparr>,
                 payload = serialize_arp c
                   \<lparr> opcode = OPCODE_REQUEST,
                     sender_ethernet_address = ethernet_address s,
                     sender_ip_address = ipv4_numeric (ip_address s),
                     target_ethernet_address = 0,
                     target_ip_address = A \<rparr> \<rparr>] \<and>
            waiting_arp_response_ip_addr (send_datagram c dgram next_hop (tick elapsed s)) A =
              Some 5000)"
proof -
  have gone: "waiting_arp_response_ip_addr (tick elapsed s) A = None"
    using assms by (simp add: tick_def age_waiting_def)
  have dropped: "waiting_for A (tick elapsed s) = []"
    using assms by (auto simp add: waiting_for_def tick_def expired_ip_def filter_empty_conv)
  have out: "frames_out (tick elapsed s) = frames_out s"
    by (simp add: tick_def)
  have eth: "ethernet_address (tick elapsed s) = ethernet_address s"
    and ip: "ip_address (tick elapsed s) = ip_address s"
    by (simp_all add: tick_def)
  have again: "frames_out (send_datagram c dgram next_hop (tick elapsed s)) =
              frames_out s @
              [\<lparr> header = \<lparr> dst = ETHERNET_BROADCAST, src = ethernet_address s,
                             type = TYPE_ARP \<rparr>,
                 payload = serialize_arp c
                   \<lparr> opcode = OPCODE_REQUEST,
                     sender_ethernet_address = ethernet_address s,
                     sender_ip_address = ipv4_numeric (ip_address s),
                     target_ethernet_address = 0,
                     target_ip_address = A \<rparr> \<rparr>] \<and>
            waiting_arp_response_ip_addr (send_datagram c dgram next_hop (tick elapsed s)) A =
              Some 5000"
    if "ipv4_numeric next_hop = A" and "arp_table (tick elapsed s) A = None"
  proof -
    have "send_datagram c dgram next_hop (tick elapsed s) =
      (tick elapsed s)\<lparr> frames_out := frames_out (tick elapsed s) @
           [construct_ethernet_frame (tick elapsed s) ETHERNET_BROADCAST TYPE_ARP
              (serialize_arp c
                 (construct_arp_message (tick elapsed s) OPCODE_REQUEST 0 (ipv4_numeric next_hop)))],
        waiting_arp_response_ip_addr :=
          (waiting_arp_response_ip_addr (tick elapsed s))
            (ipv4_numeric next_hop \<mapsto> arp_response_default_ttl),
        waiting_arp_internet_datagrams :=
          waiting_arp_internet_datagrams (tick elapsed s) @ [(next_hop, dgram)] \<rparr>"
      using that gone by (intro send_datagram_fresh) simp_all
    then show ?thesis
      by (simp add: that(1) out eth ip construct_ethernet_frame_def construct_arp_message_def
          arp_response_default_ttl_def)
  qed
  show ?thesis
    using gone dropped out again by blast
qed

theorem tick_expires_waiting_witness:
  "waiting_arp_response_ip_addr demo_blocked 2 = Some 5000 \<and>
   (5000 :: nat) \<le> 5000 \<and>
   ipv4_numeric (Address 2 0) = 2 \<and>
   arp_table (tick 5000 demo_blocked) 2 = None \<and>
   waiting_arp_response_ip_addr (tick 5000 demo_blocked) 2 = None \<and>
   waiting_for 2 (tick 5000 demo_blocked) = [] \<and>
   frames_out (send_datagram demo_codec [9] (Address 2 0) (tick 5000 demo_blocked)) =
     [\<lparr> header = \<lparr> dst = ETHERNET_BROADCAST, src = 0xAA, type = TYPE_ARP \<rparr>,
        payload = [1, 0xAA, 1, 0, 2] \<rparr>,
      \<lparr> header = \<lparr> dst = ETHERNET_BROADCAST, src = 0xAA, type = TYPE_ARP \<rparr>,
        payload = [1, 0xAA, 1, 0, 2] \<rparr>] \<and>
   waiting_arp_response_ip_addr
     (send_datagram demo_codec [9] (Address 2 0) (tick 5000 demo_blocked)) 2 = Some 5000"
proof -
  have pending: "waiting_arp_response_ip_addr demo_blocked 2 = Some 5000"
    by (simp add: demo_blocked_eq)
  have late: "(5000 :: nat) \<le> 5000"
    by simp
  have hop: "ipv4_numeric (Address 2 0) = 2"
    by simp
  have miss: "arp_table (tick 5000 demo_blocked) 2 = None"
    by (simp add: demo_blocked_eq tick_def)
  from tick_expires_waiting [OF pending late, of "Address 2 0" demo_codec "[9]"] hop miss
  have "waiting_arp_response_ip_addr (tick 5000 demo_blocked) 2 = None \<and>
   waiting_for 2 (tick 5000 demo_blocked) = [] \<and>
   frames_out (send_datagram demo_codec [9] (Address 2 0) (tick 5000 demo_blocked)) =
     [\<lparr> header = \<lparr> dst = ETHERNET_BROADCAST, src = 0xAA, type = TYPE_ARP \<rparr>,
        payload = [1, 0xAA, 1, 0, 2] \<rparr>,
      \<lparr> header = \<lparr> dst = ETHERNET_BROADCAST, src = 0xAA, type = TYPE_ARP \<rparr>,
        payload = [1, 0xAA, 1, 0, 2] \<rparr>] \<and>
   waiting_arp_response_ip_addr
     (send_datagram demo_codec [9] (Address 2 0) (tick 5000 demo_blocked)) 2 = Some 5000"
    by (simp add: demo_blocked_eq demo_codec_def OPCODE_REQUEST_def)
  with pending late hop miss show ?thesis
    by blast
qed

section \<open>Invariants of the reachable states\<close>

text \<open>
  C7. Every sequence of calls of the four public operations on a freshly constructed
  interface returns, and in the state it reaches no IP address is both in the ARP table
  and in the waiting map.
\<close>

theorem cache_and_waiting_disjoint:
  "\<exists>s. run_calls c calls (new_NetworkInterface eth ip) = Some s \<and>
        dom (arp_table s) \<inter> dom (waiting_arp_response_ip_addr s) = {}"
proof -
  obtain s where run: "run_calls c calls (new_NetworkInterface eth ip) = Some s"
    using run_calls_returns by blast
  have "stores_ok s"
    using stores_ok_new run by (rule stores_ok_run_calls)
  then have disj: "arp_table s k = None \<or> waiting_arp_response_ip_addr s k = None" for k
    by (simp add: stores_ok_def)
  have "k \<notin> dom (arp_table s) \<inter> dom (waiting_arp_response_ip_addr s)" for k
    using disj [of k] by auto
  then have "dom (arp_table s) \<inter> dom (waiting_arp_response_ip_addr s) = {}"
    by blast
  with run show ?thesis by blast
qed

theorem cache_and_waiting_disjoint_witness:
  "\<exists>s. run_calls demo_codec demo_calls (new_NetworkInterface 0xAA (Address 1 0)) = Some s \<and>
        arp_table s 2 = Some \<lparr> eth_addr = 0xBB, ttl = 29900 \<rparr> \<and>
        waiting_arp_response_ip_addr s 3 = Some 4900 \<and>
        dom (arp_table s) \<inter> dom (waiting_arp_response_ip_addr s) = {}"
  using cache_and_waiting_disjoint [of demo_codec demo_calls "0xAA" "Address 1 0"]
  by (simp add: demo_calls_run demo_calls_state)

text \<open>
  C10. In the state reached by any sequence of calls of the four public operations on a
  freshly constructed interface, the next hop of every datagram of the waiting list
  has an entry in the waiting map, and so none in the ARP table.
\<close>

theorem blocked_datagrams_are_pending:
  "\<exists>s. run_calls c calls (new_NetworkInterface eth ip) = Some s \<and>
        (\<forall>pair \<in> set (waiting_arp_internet_datagrams s).
           waiting_arp_response_ip_addr s (ipv4_numeric (fst pair)) \<noteq> None \<and>
           arp_table s (ipv4_numeric (fst pair)) = None)"
proof -
  obtain s where run: "run_calls c calls (new_NetworkInterface eth ip) = Some s"
    using run_calls_returns by blast
  have "stores_ok s"
    using stores_ok_new run by (rule stores_ok_run_calls)
  then have "\<forall>pair \<in> set (waiting_arp_internet_datagrams s).
           waiting_arp_response_ip_addr s (ipv4_numeric (fst pair)) \<noteq> None \<and>
           arp_table s (ipv4_numeric (fst pair)) = None"
    unfolding stores_ok_def by blast
  with run show ?thesis by blast
qed

theorem blocked_datagrams_are_pending_witness:
  "\<exists>s. run_calls demo_codec demo_calls (new_NetworkInterface 0xAA (Address 1 0)) = Some s \<and>
        waiting_arp_internet_datagrams s = [(Address 3 0, [8])] \<and>
        waiting_arp_response_ip_addr s 3 \<noteq> None \<and>
        arp_table s 3 = None"
  using blocked_datagrams_are_pending [of demo_codec demo_calls "0xAA" "Address 1 0"]
  by (simp add: demo_calls_run demo_calls_state)

section \<open>Frames that are not for this interface, and payloads that do not parse\<close>

text \<open>
  C8. A frame whose destination is neither the Ethernet address of the interface nor
  the broadcast address makes \<^verbatim>\<open>recv_frame\<close> return no datagram and leave the
  whole state as it was (the ARP table, the waiting map, the waiting list and the
  outbound queue), whatever its type and payload are.
\<close>

theorem recv_frame_not_addressed:
  assumes "dst (header frame) \<noteq> ethernet_address s"
    and "dst (header frame) \<noteq> ETHERNET_BROADCAST"
  shows "recv_frame c frame s = Some (None, s)"
  using assms by (simp add: recv_frame_def)

theorem recv_frame_not_addressed_witness:
  "dst (header \<lparr> header = \<lparr> dst = 0xBB, src = 0xCC, type = TYPE_ARP \<rparr>, payload = [2, 0xCC, 2, 0xAA, 1] \<rparr>)
     \<noteq> ethernet_address demo_interface \<and>
   dst (header \<lparr> header = \<lparr> dst = 0xBB, src = 0xCC, type = TYPE_ARP \<rparr>, payload = [2, 0xCC, 2, 0xAA, 1] \<rparr>)
     \<noteq> ETHERNET_BROADCAST \<and>
   recv_frame demo_codec
     \<lparr> header = \<lparr> dst = 0xBB, src = 0xCC, type = TYPE_ARP \<rparr>, payload = [2, 0xCC, 2, 0xAA, 1] \<rparr>
     demo_interface = Some (None, demo_interface)"
  using recv_frame_not_addressed
    [of "\<lparr> header = \<lparr> dst = 0xBB, src = 0xCC, type = TYPE_ARP \<rparr>, payload = [2, 0xCC, 2, 0xAA, 1] \<rparr>"
        demo_interface demo_codec]
  by (simp add: demo_interface_def new_NetworkInterface_def ETHERNET_BROADCAST_def)

text \<open>
  C9. A frame for this interface (or a broadcast) whose payload does not parse, an IPv4
  frame whose payload is no datagram or an ARP frame whose payload is no ARP message,
  makes \<^verbatim>\<open>recv_frame\<close> return no datagram and leave the whole state as it was; the
  caller sees no error.
\<close>

theorem recv_frame_unparsable:
  assumes "dst (header frame) = ethernet_address s \<or> dst (header frame) = ETHERNET_BROADCAST"
    and "(type (header frame) = TYPE_IPv4 \<and> parse_dgram c (payload frame) = None) \<or>
         (type (header frame) = TYPE_ARP \<and> parse_arp c (payload frame) = None)"
  shows "recv_frame c frame s = Some (None, s)"
  using assms
  by (auto simp add: recv_frame_def handle_IPv4_frame_def handle_arp_frame_def
      TYPE_IPv4_def TYPE_ARP_def)

theorem recv_frame_unparsable_witness:
  "(dst (header \<lparr> header = \<lparr> dst = 0xAA, src = 0xCC, type = TYPE_IPv4 \<rparr>, payload = [] \<rparr>)
      = ethernet_address demo_interface \<or>
    dst (header \<lparr> header = \<lparr> dst = 0xAA, src = 0xCC, type = TYPE_IPv4 \<rparr>, payload = [] \<rparr>)
      = ETHERNET_BROADCAST) \<and>
   parse_dgram demo_codec [] = None \<and>
   recv_frame demo_codec
     \<lparr> header = \<lparr> dst = 0xAA, src = 0xCC, type = TYPE_IPv4 \<rparr>, payload = [] \<rparr>
     demo_interface = Some (None, demo_interface) \<and>
   (dst (header \<lparr> header = \<lparr> dst = ETHERNET_BROADCAST, src = 0xCC, type = TYPE_ARP \<rparr>,
                  payload = [1, 2] \<rparr>)
      = ethernet_address demo_interface \<or>
    dst (header \<lparr> header = \<lparr> dst = ETHERNET_BROADCAST, src = 0xCC, type = TYPE_ARP \<rparr>,
                  payload = [1, 2] \<rparr>)
      = ETHERNET_BROADCAST) \<and>
   parse_arp demo_codec [1, 2] = None \<and>
   recv_frame demo_codec
     \<lparr> header = \<lparr> dst = ETHERNET_BROADCAST, src = 0xCC, type = TYPE_ARP \<rparr>, payload = [1, 2] \<rparr>
     demo_interface = Some (None, demo_interface)"
  using recv_frame_unparsable
    [of "\<lparr> header = \<lparr> dst = 0xAA, src = 0xCC, type = TYPE_IPv4 \<rparr>, payload = [] \<rparr>"
        demo_interface demo_codec]
    recv_frame_unparsable
    [of "\<lparr> header = \<lparr> dst = ETHERNET_BROADCAST, src = 0xCC, type = TYPE_ARP \<rparr>, payload = [1, 2] \<rparr>"
        demo_interface demo_codec]
  by (simp add: demo_interface_def new_NetworkInterface_def demo_codec_def)

end
